theory Spec2Isabelle
  imports Main
begin

section \<open>Exceptions, control flow and the world the program runs in\<close>

text \<open>
  The two modules of the repository, \<^verbatim>\<open>db.py\<close> and \<^verbatim>\<open>technical_writer_agent.py\<close>, are
  embedded as functions that take the state of the world and return an outcome and the
  new state. Python text is a \<open>string\<close>; a character beyond ASCII is written as the bytes
  of its UTF-8 encoding, so concatenation is concatenation. Every exception the code can
  meet is a value of \<open>exn\<close>; all of them are subclasses of Python's \<^verbatim>\<open>Exception\<close>.
  \<^verbatim>\<open>sys.exit(n)\<close> raises \<^verbatim>\<open>SystemExit\<close>, which \<^verbatim>\<open>except Exception\<close> does not catch:
  it is the third outcome, \<open>Exit n\<close>. Asynchronous interrupts are not modelled.
\<close>

datatype exn =
    FileNotFoundError
  | IsADirectoryError
  | ValueError
  | KeyError string
  | IndexError
  | TypeError
  | AttributeError
  | GenerationError string
  | PoolError
  | OperationalError
  | DatabaseError
  | NotModelled

datatype 'a res = Ok 'a | Raise exn | Exit int

type_synonym path = string

datatype fs_node = File string | Directory

datatype cfg_value = IntV int | StrV string

type_synonym config = "(string \<times> cfg_value) list"

text \<open>A \<^verbatim>\<open>ThreadedConnectionPool\<close> object: its identity and the keyword arguments it was built from.\<close>

record pool =
  pool_ref :: nat
  pool_kwargs :: config

text \<open>One row of \<^verbatim>\<open>article_optimization_logs\<close>, as the DDL of \<^verbatim>\<open>init_table\<close> declares it
  (\<^verbatim>\<open>id\<close> is \<open>row_id\<close>; every column but \<^verbatim>\<open>id\<close> and \<^verbatim>\<open>original_content\<close> is nullable).\<close>

record row =
  row_id :: int
  original_content :: string
  analyst_prompt :: "string option"
  analyst_result :: "string option"
  architect_prompt :: "string option"
  architect_result :: "string option"
  writer_prompt :: "string option"
  writer_result :: "string option"
  evaluation :: "string option"
  created_at :: "int option"

text \<open>The transactional part of the database: the table (absent until created) and its index.\<close>

record store =
  tbl :: "row list option"
  idx :: bool

datatype stmt =
    CreateTable
  | CreateIndex
  | InsertRow
  | SelectById int
  | SelectPage int int
  | CountRows

text \<open>What happens on pooled connections, in order: a connection handed out, a cursor
  opened, a statement sent, \<^verbatim>\<open>commit()\<close> and \<^verbatim>\<open>rollback()\<close> called, the connection given
  back, a pool closed.\<close>

datatype db_event =
    Acquire
  | Cursor
  | Execute stmt
  | Commit
  | Rollback
  | Release
  | CloseAll nat

record llm_request =
  request_model :: string
  system_instruction :: string
  user_prompt :: string

datatype console_msg =
    MissingApiKey
  | LlmCallFailed exn
  | InputNotFound path
  | Started path string
  | StepNotice nat
  | StepPanel nat string
  | PreviewPanel string
  | Saved path
  | RecordId int
  | DbWarning exn
  | Usage
  | PoolInitError exn
  | InitTableWarning exn

text \<open>
  The world: the process environment, the file system (a flat map from paths to nodes,
  holding the text that text-mode UTF-8 I/O reads and writes), the console, the
  generation service (\<open>provider w n req\<close> is what the \<open>n\<close>-th request of the run gets:
  a text or an exception) with the log of requests made, the two clocks, and the database:
  the schedule of failures of its fallible primitives (\<open>faults\<close>, consumed one entry per
  primitive, \<open>True\<close> meaning that the primitive raises), the class attributes of
  \<^verbatim>\<open>ConnectionPool\<close>, the number of pools built so far and of connections out of the
  pool, the committed store, the working copy of the open transaction, the \<^verbatim>\<open>SERIAL\<close>
  sequence (which a rollback does not rewind) and the log of connection events.
  \<open>env_config\<close> is what \<^verbatim>\<open>DatabaseConfig.get_config()\<close> evaluates to in this process
  environment (an exception when an \<^verbatim>\<open>int(...)\<close> coercion raises).
\<close>

record world =
  environ :: "string \<rightharpoonup> string"
  env_config :: "exn + config"
  files :: "path \<rightharpoonup> fs_node"
  console :: "console_msg list"
  provider :: "nat \<Rightarrow> llm_request \<Rightarrow> exn + string"
  llm_log :: "llm_request list"
  client_now :: int
  server_now :: int
  faults :: "bool list"
  pool_instance :: "pool option"
  pool_config :: "config option"
  pools_made :: nat
  checked_out :: nat
  committed :: store
  txn :: "store option"
  serial :: int
  db_trace :: "db_event list"

type_synonym 'a io = "world \<Rightarrow> 'a res \<times> world"

definition io_return :: "'a \<Rightarrow> 'a io" where
  "io_return x = (\<lambda>w. (Ok x, w))"

definition io_raise :: "exn \<Rightarrow> 'a io" where
  "io_raise e = (\<lambda>w. (Raise e, w))"

definition sys_exit :: "int \<Rightarrow> 'a io" where
  "sys_exit n = (\<lambda>w. (Exit n, w))"

definition io_bind :: "'a io \<Rightarrow> ('a \<Rightarrow> 'b io) \<Rightarrow> 'b io" where
  "io_bind m f = (\<lambda>w. case m w of
       (Ok x, w1) \<Rightarrow> f x w1
     | (Raise e, w1) \<Rightarrow> (Raise e, w1)
     | (Exit n, w1) \<Rightarrow> (Exit n, w1))"

text \<open>\<^verbatim>\<open>try: m  except Exception as e: h e\<close>\<close>

definition io_except :: "'a io \<Rightarrow> (exn \<Rightarrow> 'a io) \<Rightarrow> 'a io" where
  "io_except m h = (\<lambda>w. case m w of
       (Ok x, w1) \<Rightarrow> (Ok x, w1)
     | (Raise e, w1) \<Rightarrow> h e w1
     | (Exit n, w1) \<Rightarrow> (Exit n, w1))"

text \<open>\<^verbatim>\<open>try: m  finally: f\<close>: \<open>f\<close> runs on every way out of \<open>m\<close>; when \<open>f\<close> itself raises,
  that replaces the outcome of \<open>m\<close>.\<close>

definition io_finally :: "'a io \<Rightarrow> unit io \<Rightarrow> 'a io" where
  "io_finally m f = (\<lambda>w. case m w of (r, w1) \<Rightarrow>
       (case f w1 of
          (Ok u, w2) \<Rightarrow> (r, w2)
        | (Raise e, w2) \<Rightarrow> (Raise e, w2)
        | (Exit n, w2) \<Rightarrow> (Exit n, w2)))"

definition console_print :: "console_msg \<Rightarrow> unit io" where
  "console_print m = (\<lambda>w. (Ok (), w\<lparr>console := console w @ [m]\<rparr>))"

text \<open>The status the operating system sees: 0 when the script runs to its end, the argument
  of \<^verbatim>\<open>sys.exit\<close>, and 1 after an uncaught exception.\<close>

fun exit_status :: "'a res \<Rightarrow> int" where
  "exit_status (Ok x) = 0"
| "exit_status (Exit n) = n"
| "exit_status (Raise e) = 1"

section \<open>db.py\<close>

subsection \<open>The database primitives the module calls\<close>

text \<open>A fallible primitive consumes one entry of the failure schedule.\<close>

definition fault_gate :: "exn \<Rightarrow> unit io" where
  "fault_gate e = (\<lambda>w. case faults w of
       [] \<Rightarrow> (Ok (), w)
     | b # bs \<Rightarrow> (if b then Raise e else Ok (), w\<lparr>faults := bs\<rparr>))"

definition log_event :: "db_event \<Rightarrow> unit io" where
  "log_event ev = (\<lambda>w. (Ok (), w\<lparr>db_trace := db_trace w @ [ev]\<rparr>))"

text \<open>The store a statement of the open transaction sees: its own working copy, or the
  committed store when it has not written yet.\<close>

definition cur_store :: "world \<Rightarrow> store" where
  "cur_store w = (case txn w of None \<Rightarrow> committed w | Some s \<Rightarrow> s)"

text \<open>\<^verbatim>\<open>psycopg2.pool.ThreadedConnectionPool(**kwargs)\<close>: opens its first connections, which
  fails when the server cannot be reached; a new pool is a new object.\<close>

definition ThreadedConnectionPool :: "config \<Rightarrow> pool io" where
  "ThreadedConnectionPool kwargs =
     io_bind (fault_gate OperationalError) (\<lambda>_. (\<lambda>w.
       (Ok \<lparr>pool_ref = pools_made w, pool_kwargs = kwargs\<rparr>,
        w\<lparr>pools_made := Suc (pools_made w)\<rparr>)))"

text \<open>\<^verbatim>\<open>pool.getconn()\<close>: raises when the pool is exhausted or no connection can be made;
  the connection it hands out has no open transaction.\<close>

definition getconn :: "pool \<Rightarrow> unit io" where
  "getconn p =
     io_bind (fault_gate PoolError) (\<lambda>_.
     io_bind (log_event Acquire) (\<lambda>_. (\<lambda>w.
       (Ok (), w\<lparr>checked_out := Suc (checked_out w), txn := None\<rparr>))))"

text \<open>\<^verbatim>\<open>pool.putconn(conn)\<close>: the pool takes the connection back and resets a transaction
  left open on it.\<close>

definition putconn :: "pool \<Rightarrow> unit io" where
  "putconn p =
     io_bind (log_event Release) (\<lambda>_. (\<lambda>w.
       (Ok (), w\<lparr>checked_out := checked_out w - 1, txn := None\<rparr>)))"

definition cursor :: "unit io" where
  "cursor = io_bind (log_event Cursor) (\<lambda>_. fault_gate OperationalError)"

definition commit :: "unit io" where
  "commit =
     io_bind (log_event Commit) (\<lambda>_.
     io_bind (fault_gate OperationalError) (\<lambda>_. (\<lambda>w.
       (Ok (), w\<lparr>committed := cur_store w, txn := None\<rparr>))))"

definition rollback :: "unit io" where
  "rollback =
     io_bind (log_event Rollback) (\<lambda>_.
     io_bind (fault_gate OperationalError) (\<lambda>_. (\<lambda>w.
       (Ok (), w\<lparr>txn := None\<rparr>))))"

text \<open>\<^verbatim>\<open>cur.execute(sql, params)\<close>: the statement reaches the server (or the call raises),
  and the statement's own semantics follow, one function per statement of the module.\<close>

definition execute :: "stmt \<Rightarrow> unit io" where
  "execute s = io_bind (log_event (Execute s)) (\<lambda>_. fault_gate DatabaseError)"

definition write_store :: "store \<Rightarrow> unit io" where
  "write_store s = (\<lambda>w. (Ok (), w\<lparr>txn := Some s\<rparr>))"

text \<open>\<^verbatim>\<open>CREATE TABLE IF NOT EXISTS\<close>: a new table is empty and its sequence starts before 1.\<close>

definition sql_create_table :: "unit io" where
  "sql_create_table =
     io_bind (execute CreateTable) (\<lambda>_. (\<lambda>w.
       case tbl (cur_store w) of
         Some rs \<Rightarrow> (Ok (), w)
       | None \<Rightarrow> write_store ((cur_store w)\<lparr>tbl := Some []\<rparr>) (w\<lparr>serial := 0\<rparr>)))"

text \<open>\<^verbatim>\<open>CREATE INDEX IF NOT EXISTS ... ON article_optimization_logs(created_at DESC)\<close>\<close>

definition sql_create_index :: "unit io" where
  "sql_create_index =
     io_bind (execute CreateIndex) (\<lambda>_. (\<lambda>w.
       case tbl (cur_store w) of
         None \<Rightarrow> (Raise DatabaseError, w)
       | Some rs \<Rightarrow> write_store ((cur_store w)\<lparr>idx := True\<rparr>) w))"

text \<open>A column of an \<^verbatim>\<open>INSERT\<close> is left out of the column list, and then takes the default
  of the DDL, or is given a value.\<close>

datatype 'a supplied = Default | Value 'a

text \<open>
  \<^verbatim>\<open>INSERT INTO article_optimization_logs (...) VALUES (...) RETURNING id\<close>. The statement
  leaves \<^verbatim>\<open>id\<close> out, so the id is the next value of the \<^verbatim>\<open>SERIAL\<close> sequence (a 32-bit
  integer; the sequence moves even when the statement then fails); the primary key rejects
  an id that the table already holds. A \<^verbatim>\<open>created_at\<close> left out would take
  \<^verbatim>\<open>DEFAULT CURRENT_TIMESTAMP\<close>, the clock of the server. The result set is the new id.
\<close>

definition sql_insert ::
  "string \<Rightarrow> string option \<Rightarrow> string option \<Rightarrow> string option \<Rightarrow> string option \<Rightarrow>
   string option \<Rightarrow> string option \<Rightarrow> string option \<Rightarrow> int option supplied \<Rightarrow> int list io" where
  "sql_insert oc ap ar bp br wp wr ev ca =
     io_bind (execute InsertRow) (\<lambda>_. (\<lambda>w.
       case tbl (cur_store w) of
         None \<Rightarrow> (Raise DatabaseError, w)
       | Some rs \<Rightarrow>
           if serial w \<ge> 2147483647 then (Raise DatabaseError, w)
           else
             let new_id = serial w + 1;
                 w1 = w\<lparr>serial := new_id\<rparr>;
                 r = \<lparr>row_id = new_id, original_content = oc,
                      analyst_prompt = ap, analyst_result = ar,
                      architect_prompt = bp, architect_result = br,
                      writer_prompt = wp, writer_result = wr,
                      evaluation = ev,
                      created_at = (case ca of Default \<Rightarrow> Some (server_now w) | Value v \<Rightarrow> v)\<rparr>
             in if new_id \<in> set (map row_id rs) then (Raise DatabaseError, w1)
                else io_bind (write_store ((cur_store w1)\<lparr>tbl := Some (rs @ [r])\<rparr>))
                       (\<lambda>_. io_return [new_id]) w1))"

text \<open>\<^verbatim>\<open>SELECT * FROM article_optimization_logs WHERE id = %s\<close>\<close>

definition sql_select_by_id :: "int \<Rightarrow> row list io" where
  "sql_select_by_id record_id =
     io_bind (execute (SelectById record_id)) (\<lambda>_. (\<lambda>w.
       case tbl (cur_store w) of
         None \<Rightarrow> (Raise DatabaseError, w)
       | Some rs \<Rightarrow> (Ok (filter (\<lambda>r. row_id r = record_id) rs), w)))"

text \<open>\<^verbatim>\<open>ORDER BY created_at DESC\<close>: \<open>precedes a b\<close> says that \<open>a\<close> may come before \<open>b\<close>;
  PostgreSQL puts \<^verbatim>\<open>NULL\<close> first in a descending order.\<close>

definition precedes :: "row \<Rightarrow> row \<Rightarrow> bool" where
  "precedes a b = (case created_at a of
       None \<Rightarrow> True
     | Some x \<Rightarrow> (case created_at b of None \<Rightarrow> False | Some y \<Rightarrow> y \<le> x))"

fun place :: "row \<Rightarrow> row list \<Rightarrow> row list" where
  "place r [] = [r]"
| "place r (x # xs) = (if precedes r x then r # x # xs else x # place r xs)"

definition order_by_created_at_desc :: "row list \<Rightarrow> row list" where
  "order_by_created_at_desc rs = foldr place rs []"

text \<open>\<^verbatim>\<open>SELECT * ... ORDER BY created_at DESC LIMIT %s OFFSET %s\<close>: the server rejects a
  negative \<^verbatim>\<open>LIMIT\<close> or \<^verbatim>\<open>OFFSET\<close>, and one beyond a 64-bit integer.\<close>

definition sql_select_page :: "int \<Rightarrow> int \<Rightarrow> row list io" where
  "sql_select_page limit offset =
     io_bind (execute (SelectPage limit offset)) (\<lambda>_. (\<lambda>w.
       case tbl (cur_store w) of
         None \<Rightarrow> (Raise DatabaseError, w)
       | Some rs \<Rightarrow>
           if limit < 0 \<or> offset < 0 \<or> limit > 9223372036854775807 \<or> offset > 9223372036854775807
           then (Raise DatabaseError, w)
           else (Ok (take (nat limit) (drop (nat offset) (order_by_created_at_desc rs))), w)))"


definition fetchone :: "'a list \<Rightarrow> 'a option" where
  "fetchone rs = (case rs of [] \<Rightarrow> None | r # _ \<Rightarrow> Some r)"

definition fetchall :: "'a list \<Rightarrow> 'a list" where
  "fetchall rs = rs"

text \<open>\<^verbatim>\<open>result["id"]\<close>, \<^verbatim>\<open>result["count"]\<close>: subscripting \<^verbatim>\<open>None\<close> raises.\<close>

definition subscript :: "'a option \<Rightarrow> 'a io" where
  "subscript r = (case r of None \<Rightarrow> io_raise TypeError | Some v \<Rightarrow> io_return v)"

definition utcnow :: "int io" where
  "utcnow = (\<lambda>w. (Ok (client_now w), w))"

subsection \<open>DatabaseConfig and ConnectionPool\<close>

definition get_config :: "config io" where
  "get_config = (\<lambda>w. case env_config w of Inl e \<Rightarrow> (Raise e, w) | Inr c \<Rightarrow> (Ok c, w))"

text \<open>\<^verbatim>\<open>d[key]\<close> on a dict.\<close>

definition getitem :: "config \<Rightarrow> string \<Rightarrow> cfg_value io" where
  "getitem d k = (case map_of d k of None \<Rightarrow> io_raise (KeyError k) | Some v \<Rightarrow> io_return v)"

text \<open>\<^verbatim>\<open>config or DatabaseConfig.get_config()\<close>: \<^verbatim>\<open>None\<close> and the empty dict are falsy.\<close>

definition config_or_default :: "config option \<Rightarrow> config io" where
  "config_or_default config = (case config of
       None \<Rightarrow> get_config
     | Some c \<Rightarrow> if c = [] then get_config else io_return c)"

definition initialize :: "config option \<Rightarrow> unit io" where
  "initialize config = (\<lambda>w.
     case pool_instance w of
       Some p \<Rightarrow> (Ok (), w)
     | None \<Rightarrow>
        io_bind (config_or_default config) (\<lambda>c.
        io_bind (\<lambda>w1. (Ok (), w1\<lparr>pool_config := Some c\<rparr>)) (\<lambda>_.
        io_except
          (io_bind (getitem c ''minconn'') (\<lambda>minconn.
           io_bind (getitem c ''maxconn'') (\<lambda>maxconn.
           io_bind (getitem c ''host'') (\<lambda>host.
           io_bind (getitem c ''port'') (\<lambda>port.
           io_bind (getitem c ''database'') (\<lambda>database.
           io_bind (getitem c ''user'') (\<lambda>user.
           io_bind (getitem c ''password'') (\<lambda>password.
           io_bind (ThreadedConnectionPool
                      [(''minconn'', minconn), (''maxconn'', maxconn), (''host'', host),
                       (''port'', port), (''database'', database), (''user'', user),
                       (''password'', password)]) (\<lambda>p.
           (\<lambda>w2. (Ok (), w2\<lparr>pool_instance := Some p\<rparr>)))))))))))
          (\<lambda>e. io_bind (console_print (PoolInitError e)) (\<lambda>_. io_raise e)))) w)"

definition get_pool :: "pool option io" where
  "get_pool = (\<lambda>w.
     case pool_instance w of
       None \<Rightarrow> io_bind (initialize None) (\<lambda>_. (\<lambda>w1. (Ok (pool_instance w1), w1))) w
     | Some p \<Rightarrow> (Ok (Some p), w))"


subsection \<open>get_db_cursor\<close>

text \<open>
  The context manager, applied to the body of its \<^verbatim>\<open>with\<close> block. The pool and the
  connection are obtained before the \<^verbatim>\<open>try\<close>; inside it the cursor is opened, the body
  runs and \<^verbatim>\<open>commit()\<close> follows; \<^verbatim>\<open>except Exception\<close> rolls back and raises again;
  \<^verbatim>\<open>finally\<close> gives the connection back.
\<close>

definition get_db_cursor :: "'a io \<Rightarrow> 'a io" where
  "get_db_cursor body =
     io_bind get_pool (\<lambda>pool.
       case pool of
         None \<Rightarrow> io_raise AttributeError
       | Some p \<Rightarrow>
           io_bind (getconn p) (\<lambda>conn.
             io_finally
               (io_except
                  (io_bind cursor (\<lambda>cur.
                   io_bind body (\<lambda>result.
                   io_bind commit (\<lambda>_. io_return result))))
                  (\<lambda>e. io_bind rollback (\<lambda>_. io_raise e)))
               (putconn p)))"

subsection \<open>OptimizationLogRepository\<close>

definition init_table :: "unit io" where
  "init_table = get_db_cursor (io_bind sql_create_table (\<lambda>_. sql_create_index))"

definition insert_record ::
  "string \<Rightarrow> string \<Rightarrow> string \<Rightarrow> string \<Rightarrow> string \<Rightarrow> string \<Rightarrow> string \<Rightarrow> string option \<Rightarrow> int io" where
  "insert_record original_content' analyst_prompt' analyst_result' architect_prompt'
       architect_result' writer_prompt' writer_result' evaluation' =
     get_db_cursor (
       io_bind utcnow (\<lambda>now.
       io_bind (sql_insert original_content' (Some analyst_prompt') (Some analyst_result')
                  (Some architect_prompt') (Some architect_result')
                  (Some writer_prompt') (Some writer_result') evaluation' (Value (Some now))) (\<lambda>rs.
       subscript (fetchone rs))))"

definition find_by_id :: "int \<Rightarrow> row option io" where
  "find_by_id record_id =
     get_db_cursor (io_bind (sql_select_by_id record_id) (\<lambda>rs. io_return (fetchone rs)))"

definition find_all :: "int \<Rightarrow> int \<Rightarrow> row list io" where
  "find_all limit offset =
     get_db_cursor (io_bind (sql_select_page limit offset) (\<lambda>rs. io_return (fetchall rs)))"


text \<open>The module's last statement: the table is created when the module is imported, and a
  failure is printed as a warning.\<close>

definition db_module_init :: "unit io" where
  "db_module_init = io_except init_table (\<lambda>e. console_print (InitTableWarning e))"

section \<open>technical_writer_agent.py\<close>

subsection \<open>Text: str.format and files\<close>

text \<open>
  \<^verbatim>\<open>template.format(**kwargs)\<close>, called with keyword arguments only. Literal text is
  copied, \<^verbatim>\<open>{{\<close> and \<^verbatim>\<open>}}\<close> give one brace, and \<^verbatim>\<open>{name}\<close> is replaced by the value
  of the keyword \<open>name\<close>. A lone brace and a field without its closing brace raise
  \<^verbatim>\<open>ValueError\<close>; a name that is no keyword raises \<^verbatim>\<open>KeyError\<close>; an empty or numeric
  name asks for a positional argument, and there is none: \<^verbatim>\<open>IndexError\<close> (or
  \<^verbatim>\<open>ValueError\<close> when the number does not fit a machine word). The first error from the
  left is the one raised. Fields with a conversion, a format specification, an attribute
  or an index (\<^verbatim>\<open>!\<close>, \<^verbatim>\<open>:\<close>, \<^verbatim>\<open>.\<close>, \<^verbatim>\<open>[\<close>) and names beyond ASCII are outside this model:
  they give \<open>NotModelled\<close>, about which nothing is proved.
\<close>

fun scan_field :: "string \<Rightarrow> exn + string \<times> string" where
  "scan_field [] = Inl ValueError"
| "scan_field (c # cs) =
     (if c = CHR ''}'' then Inr ([], cs)
      else if c = CHR ''{'' then Inl ValueError
      else if c = CHR ''['' \<or> c = CHR ''!'' \<or> c = CHR '':'' then Inl NotModelled
      else (case scan_field cs of
              Inl e \<Rightarrow> Inl e
            | Inr (name, rest) \<Rightarrow> Inr (c # name, rest)))"

definition is_digit :: "char \<Rightarrow> bool" where
  "is_digit c = (48 \<le> (of_char c :: nat) \<and> (of_char c :: nat) \<le> 57)"

definition decimal :: "string \<Rightarrow> nat" where
  "decimal ds = foldl (\<lambda>a c. 10 * a + (of_char c - 48)) 0 ds"

definition field_value :: "string \<Rightarrow> (string \<times> string) list \<Rightarrow> exn + string" where
  "field_value name kwargs =
     (if CHR ''.'' \<in> set name \<or> (\<exists>c \<in> set name. (of_char c :: nat) \<ge> 128) then Inl NotModelled
      else if name = [] then Inl IndexError
      else if list_all is_digit name then
        (if decimal name > 9223372036854775807 then Inl ValueError else Inl IndexError)
      else (case map_of kwargs name of
              None \<Rightarrow> Inl (KeyError name)
            | Some v \<Rightarrow> Inr v))"

lemma scan_field_shorter: "scan_field cs = Inr (name, rest) \<Longrightarrow> length rest < length cs"
  by (induction cs arbitrary: name rest) (auto split: if_splits sum.splits)

function str_format :: "string \<Rightarrow> (string \<times> string) list \<Rightarrow> exn + string" where
  "str_format [] kwargs = Inr []"
| "str_format (c # cs) kwargs =
     (if c = CHR ''{'' then
        (case cs of
           [] \<Rightarrow> Inl ValueError
         | d # ds \<Rightarrow>
             if d = CHR ''{'' then
               (case str_format ds kwargs of Inl e \<Rightarrow> Inl e | Inr s \<Rightarrow> Inr (CHR ''{'' # s))
             else
               (case scan_field cs of
                  Inl e \<Rightarrow> Inl e
                | Inr (name, rest) \<Rightarrow>
                    (case field_value name kwargs of
                       Inl e \<Rightarrow> Inl e
                     | Inr v \<Rightarrow>
                         (case str_format rest kwargs of
                            Inl e \<Rightarrow> Inl e
                          | Inr s \<Rightarrow> Inr (v @ s)))))
      else if c = CHR ''}'' then
        (case cs of
           [] \<Rightarrow> Inl ValueError
         | d # ds \<Rightarrow>
             if d = CHR ''}'' then
               (case str_format ds kwargs of Inl e \<Rightarrow> Inl e | Inr s \<Rightarrow> Inr (CHR ''}'' # s))
             else Inl ValueError)
      else (case str_format cs kwargs of Inl e \<Rightarrow> Inl e | Inr s \<Rightarrow> Inr (c # s)))"
  by pat_completeness auto
termination
  by (relation "measure (\<lambda>(t, kwargs). length t)")
     (auto simp del: scan_field.simps dest!: scan_field_shorter)

definition format_io :: "string \<Rightarrow> (string \<times> string) list \<Rightarrow> string io" where
  "format_io template kwargs =
     (case str_format template kwargs of Inl e \<Rightarrow> io_raise e | Inr s \<Rightarrow> io_return s)"

text \<open>\<^verbatim>\<open>open(path, 'r', encoding='utf-8')\<close> and \<^verbatim>\<open>f.read()\<close>; \<^verbatim>\<open>open(path, 'w', encoding='utf-8')\<close>
  and \<^verbatim>\<open>f.write(text)\<close>, which creates the file or replaces its content.\<close>

definition read_text :: "path \<Rightarrow> string io" where
  "read_text p = (\<lambda>w.
     if p = [] then (Raise FileNotFoundError, w)
     else case files w p of
            None \<Rightarrow> (Raise FileNotFoundError, w)
          | Some Directory \<Rightarrow> (Raise IsADirectoryError, w)
          | Some (File s) \<Rightarrow> (Ok s, w))"

definition write_text :: "path \<Rightarrow> string \<Rightarrow> unit io" where
  "write_text p s = (\<lambda>w.
     if p = [] then (Raise FileNotFoundError, w)
     else case files w p of
            Some Directory \<Rightarrow> (Raise IsADirectoryError, w)
          | _ \<Rightarrow> (Ok (), w\<lparr>files := (files w)(p \<mapsto> File s)\<rparr>))"

subsection \<open>The prompts module\<close>

text \<open>The six constants that the script imports from \<^verbatim>\<open>prompts\<close>; that module is not among
  the sources, so they are parameters.\<close>

record prompts =
  ANALYST_SYSTEM_PROMPT :: string
  ANALYST_USER_PROMPT_TEMPLATE :: string
  ARCHITECT_SYSTEM_PROMPT :: string
  ARCHITECT_USER_PROMPT_TEMPLATE :: string
  WRITER_SYSTEM_PROMPT :: string
  WRITER_USER_PROMPT_TEMPLATE :: string

subsection \<open>TechnicalWriterAgent\<close>

record agent =
  api_key :: string
  model_name :: string

text \<open>\<^verbatim>\<open>a or b\<close> on optional strings: \<^verbatim>\<open>None\<close> and the empty string are falsy.\<close>

definition py_or :: "string option \<Rightarrow> string option \<Rightarrow> string option" where
  "py_or a b = (case a of None \<Rightarrow> b | Some s \<Rightarrow> if s = [] then b else Some s)"

definition falsy :: "string option \<Rightarrow> bool" where
  "falsy a = (case a of None \<Rightarrow> True | Some s \<Rightarrow> s = [])"

text \<open>\<^verbatim>\<open>__init__\<close>\<close>

definition TechnicalWriterAgent :: "string option \<Rightarrow> string option \<Rightarrow> agent io" where
  "TechnicalWriterAgent api_key' model' = (\<lambda>w.
     let key = py_or api_key' (environ w ''GEMINI_API_KEY'') in
     if falsy key then io_bind (console_print MissingApiKey) (\<lambda>_. sys_exit 1) w
     else (Ok \<lparr>api_key = (case key of Some k \<Rightarrow> k | None \<Rightarrow> []),
               model_name = (case py_or (py_or model' (environ w ''GEMINI_MODEL''))
                                        (Some ''gemini-3-flash-preview'') of
                               Some m \<Rightarrow> m | None \<Rightarrow> [])\<rparr>, w))"

text \<open>
  \<^verbatim>\<open>_call_llm\<close>: one request to the generation service, with the model of the agent and
  the system prompt as system instruction. Whatever exception the request raises is
  printed and the process exits with status 1. The fixed generation parameters (safety
  settings, temperature, output limit) and the progress display are left out.
\<close>

definition call_llm :: "agent \<Rightarrow> string \<Rightarrow> string \<Rightarrow> string \<Rightarrow> string io" where
  "call_llm self system_prompt user_prompt' step_name = (\<lambda>w.
     let req = \<lparr>request_model = model_name self, system_instruction = system_prompt,
                user_prompt = user_prompt'\<rparr>;
         w1 = w\<lparr>llm_log := llm_log w @ [req]\<rparr>
     in case provider w (length (llm_log w)) req of
          Inr text \<Rightarrow> (Ok text, w1)
        | Inl e \<Rightarrow> io_bind (console_print (LlmCallFailed e)) (\<lambda>_. sys_exit 1) w1)"

text \<open>The literals of \<^verbatim>\<open>process\<close>: the three headings (UTF-8) and the separator.\<close>

definition heading1 :: string where
  "heading1 = ''# '' @ [CHR 0xE6, CHR 0xAD, CHR 0xA5, CHR 0xE9, CHR 0xAA, CHR 0xA4] @ '' 1: '' @
     [CHR 0xE8, CHR 0xAF, CHR 0x8A, CHR 0xE6, CHR 0x96, CHR 0xAD, CHR 0xE6, CHR 0x8A, CHR 0xA5,
      CHR 0xE5, CHR 0x91, CHR 0x8A] @ '' (Analyst)'' @ [CHR 0x0A, CHR 0x0A]"

definition heading2 :: string where
  "heading2 = ''# '' @ [CHR 0xE6, CHR 0xAD, CHR 0xA5, CHR 0xE9, CHR 0xAA, CHR 0xA4] @ '' 2: '' @
     [CHR 0xE9, CHR 0x87, CHR 0x8D, CHR 0xE6, CHR 0x9E, CHR 0x84, CHR 0xE8, CHR 0x93, CHR 0x9D,
      CHR 0xE5, CHR 0x9B, CHR 0xBE] @ '' (Architect)'' @ [CHR 0x0A, CHR 0x0A]"

definition heading3 :: string where
  "heading3 = ''# '' @ [CHR 0xE6, CHR 0xAD, CHR 0xA5, CHR 0xE9, CHR 0xAA, CHR 0xA4] @ '' 3: '' @
     [CHR 0xE6, CHR 0x9C, CHR 0x80, CHR 0xE7, CHR 0xBB, CHR 0x88, CHR 0xE6, CHR 0x96, CHR 0x87,
      CHR 0xE7, CHR 0xAB, CHR 0xA0] @ '' (Article)'' @ [CHR 0x0A, CHR 0x0A]"

definition separator :: string where
  "separator = [CHR 0x0A, CHR 0x0A] @ ''---'' @ [CHR 0x0A, CHR 0x0A]"

definition full_prompt :: "string \<Rightarrow> string \<Rightarrow> string" where
  "full_prompt system_prompt user_prompt' =
     ''System Prompt:'' @ [CHR 0x0A] @ system_prompt @ [CHR 0x0A, CHR 0x0A] @
     ''User Prompt:'' @ [CHR 0x0A] @ user_prompt'"

text \<open>The local variables of \<^verbatim>\<open>process\<close> that are alive once the output file is saved.\<close>

record run =
  article_content :: string
  analyst_user_prompt :: string
  analysis :: string
  architect_user_prompt :: string
  blueprint :: string
  writer_user_prompt :: string
  rewritten_article :: string

text \<open>
  \<^verbatim>\<open>process\<close>, from the start panel to the message that the output is saved: the three
  stages, each rendering its template, calling the service and adding its section to
  \<^verbatim>\<open>process_log\<close>, then the output file. The preview panel shows the final article cut
  after 500 characters; the cutting is rendering and is not modelled.
\<close>

definition run_stages :: "prompts \<Rightarrow> agent \<Rightarrow> path \<Rightarrow> string \<Rightarrow> path \<Rightarrow> run io" where
  "run_stages P self article_path article_content' output_path =
     io_bind (console_print (Started article_path (model_name self))) (\<lambda>_.
     let process_log = [] in
     io_bind (console_print (StepNotice 1)) (\<lambda>_.
     io_bind (format_io (ANALYST_USER_PROMPT_TEMPLATE P)
                [(''article_content'', article_content')]) (\<lambda>analyst_user_prompt'.
     io_bind (call_llm self (ANALYST_SYSTEM_PROMPT P) analyst_user_prompt' ''Analyst'') (\<lambda>analysis'.
     io_bind (console_print (StepPanel 1 analysis')) (\<lambda>_.
     let process_log = process_log @ heading1 @ analysis' @ separator in
     io_bind (console_print (StepNotice 2)) (\<lambda>_.
     io_bind (format_io (ARCHITECT_USER_PROMPT_TEMPLATE P)
                [(''article_content'', article_content'),
                 (''analysis_content'', analysis')]) (\<lambda>architect_user_prompt'.
     io_bind (call_llm self (ARCHITECT_SYSTEM_PROMPT P) architect_user_prompt' ''Architect'') (\<lambda>blueprint'.
     io_bind (console_print (StepPanel 2 blueprint')) (\<lambda>_.
     let process_log = process_log @ heading2 @ blueprint' @ separator in
     io_bind (console_print (StepNotice 3)) (\<lambda>_.
     io_bind (format_io (WRITER_USER_PROMPT_TEMPLATE P)
                [(''article_content'', article_content'),
                 (''analysis_content'', analysis'),
                 (''blueprint_content'', blueprint')]) (\<lambda>writer_user_prompt'.
     io_bind (call_llm self (WRITER_SYSTEM_PROMPT P) writer_user_prompt' ''Writer'') (\<lambda>rewritten_article'.
     let process_log = process_log @ heading3 @ rewritten_article' @ [CHR 0x0A, CHR 0x0A] in
     io_bind (write_text output_path process_log) (\<lambda>_.
     io_bind (console_print (PreviewPanel rewritten_article')) (\<lambda>_.
     io_bind (console_print (Saved output_path)) (\<lambda>_.
     io_return \<lparr>article_content = article_content',
                analyst_user_prompt = analyst_user_prompt', analysis = analysis',
                architect_user_prompt = architect_user_prompt', blueprint = blueprint',
                writer_user_prompt = writer_user_prompt',
                rewritten_article = rewritten_article'\<rparr>)))))))))))))))"

text \<open>The last block of \<^verbatim>\<open>process\<close>: the record is inserted inside \<^verbatim>\<open>try\<close>, and
  \<^verbatim>\<open>except Exception\<close> prints a warning.\<close>

definition record_run :: "prompts \<Rightarrow> run \<Rightarrow> unit io" where
  "record_run P v =
     io_except
       (let full_analyst_prompt = full_prompt (ANALYST_SYSTEM_PROMPT P) (analyst_user_prompt v);
            full_architect_prompt = full_prompt (ARCHITECT_SYSTEM_PROMPT P) (architect_user_prompt v);
            full_writer_prompt = full_prompt (WRITER_SYSTEM_PROMPT P) (writer_user_prompt v)
        in io_bind (insert_record (article_content v)
                      full_analyst_prompt (analysis v)
                      full_architect_prompt (blueprint v)
                      full_writer_prompt (rewritten_article v) None) (\<lambda>record_id.
           console_print (RecordId record_id)))
       (\<lambda>e. console_print (DbWarning e))"

text \<open>\<^verbatim>\<open>process\<close>: the input is read first; \<^verbatim>\<open>except FileNotFoundError\<close> prints a message
  and returns.\<close>

definition process :: "prompts \<Rightarrow> agent \<Rightarrow> path \<Rightarrow> path \<Rightarrow> unit io" where
  "process P self article_path output_path = (\<lambda>w.
     case read_text article_path w of
       (Raise e, w1) \<Rightarrow>
         if e = FileNotFoundError then console_print (InputNotFound article_path) w1
         else (Raise e, w1)
     | (Exit n, w1) \<Rightarrow> (Exit n, w1)
     | (Ok article_content', w1) \<Rightarrow>
         io_bind (run_stages P self article_path article_content' output_path)
           (\<lambda>v. record_run P v) w1)"

text \<open>The script: \<^verbatim>\<open>sys.argv\<close> holds the script name and the arguments.\<close>

definition main :: "prompts \<Rightarrow> string list \<Rightarrow> unit io" where
  "main P argv =
     (if length argv < 3 then io_bind (console_print Usage) (\<lambda>_. sys_exit 1)
      else io_bind (TechnicalWriterAgent None None) (\<lambda>agent.
             process P agent (argv ! 1) (argv ! 2)))"

text \<open>Running the script imports \<^verbatim>\<open>db\<close> first, which initialises the table.\<close>

definition run_script :: "prompts \<Rightarrow> string list \<Rightarrow> unit io" where
  "run_script P argv = io_bind db_module_init (\<lambda>_. main P argv)"

section \<open>Vocabulary of the properties\<close>

text \<open>An operation maintains a relation between the world before and after it; the
  relations used are preorders, so that they compose along a sequence of operations.\<close>

definition maintains :: "(world \<Rightarrow> world \<Rightarrow> bool) \<Rightarrow> 'a io \<Rightarrow> bool" where
  "maintains R m = (\<forall>w r w'. m w = (r, w') \<longrightarrow> R w w')"

definition preorder_on_worlds :: "(world \<Rightarrow> world \<Rightarrow> bool) \<Rightarrow> bool" where
  "preorder_on_worlds R = ((\<forall>w. R w w) \<and> (\<forall>a b c. R a b \<longrightarrow> R b c \<longrightarrow> R a c))"

definition never_exits :: "'a io \<Rightarrow> bool" where
  "never_exits m = (\<forall>w r w'. m w = (r, w') \<longrightarrow> (\<forall>n. r \<noteq> Exit n))"

text \<open>What the database module never touches.\<close>

definition outside_db :: "world \<Rightarrow> world \<Rightarrow> bool" where
  "outside_db w w' = (environ w' = environ w \<and> env_config w' = env_config w \<and>
     files w' = files w \<and> provider w' = provider w \<and> llm_log w' = llm_log w \<and>
     client_now w' = client_now w \<and> server_now w' = server_now w)"

text \<open>What obtaining the pool leaves as it is.\<close>

definition pool_frame :: "world \<Rightarrow> world \<Rightarrow> bool" where
  "pool_frame w w' = (outside_db w w' \<and> db_trace w' = db_trace w \<and>
     committed w' = committed w \<and> checked_out w' = checked_out w \<and> txn w' = txn w \<and>
     serial w' = serial w)"

text \<open>A small world to run the definitions in: the default configuration of
  \<^verbatim>\<open>DatabaseConfig\<close>, an API key, one article, a service that answers every request, a
  database that never fails and has no table yet.\<close>

definition demo_config :: config where
  "demo_config = [(''host'', StrV ''localhost''), (''port'', IntV 5432),
     (''database'', StrV ''postgres''), (''user'', StrV ''kkbabe''), (''password'', StrV []),
     (''minconn'', IntV 1), (''maxconn'', IntV 10)]"

definition demo_pool :: pool where
  "demo_pool = \<lparr>pool_ref = 0, pool_kwargs = [(''minconn'', IntV 1), (''maxconn'', IntV 10),
     (''host'', StrV ''localhost''), (''port'', IntV 5432), (''database'', StrV ''postgres''),
     (''user'', StrV ''kkbabe''), (''password'', StrV [])]\<rparr>"

definition demo_prompts :: prompts where
  "demo_prompts = \<lparr>ANALYST_SYSTEM_PROMPT = ''analyst'',
     ANALYST_USER_PROMPT_TEMPLATE = ''Read {article_content}'',
     ARCHITECT_SYSTEM_PROMPT = ''architect'',
     ARCHITECT_USER_PROMPT_TEMPLATE = ''Plan {article_content} given {analysis_content}'',
     WRITER_SYSTEM_PROMPT = ''writer'',
     WRITER_USER_PROMPT_TEMPLATE =
       ''Write {article_content} given {analysis_content} and {blueprint_content}''\<rparr>"

definition demo_provider :: "nat \<Rightarrow> llm_request \<Rightarrow> exn + string" where
  "demo_provider n req = (if n = 0 then Inr ''A'' else if n = 1 then Inr ''B'' else Inr ''C'')"

definition demo_world :: world where
  "demo_world = \<lparr>environ = [''GEMINI_API_KEY'' \<mapsto> ''key''],
     env_config = Inr demo_config,
     files = [''in.md'' \<mapsto> File ''text''],
     console = [],
     provider = demo_provider,
     llm_log = [],
     client_now = 1000,
     server_now = 2000,
     faults = [],
     pool_instance = None,
     pool_config = None,
     pools_made = 0,
     checked_out = 0,
     committed = \<lparr>tbl = None, idx = False\<rparr>,
     txn = None,
     serial = 0,
     db_trace = []\<rparr>"

text \<open>The small world once the pool is built, once it is closed, and once it is built again.\<close>

definition demo_pooled :: world where
  "demo_pooled = demo_world\<lparr>pool_instance := Some demo_pool, pool_config := Some demo_config,
     pools_made := 1\<rparr>"



text \<open>The small world with the pool built and three rows in the table, one of them without
  a creation time.\<close>

definition demo_row :: "int \<Rightarrow> int option \<Rightarrow> row" where
  "demo_row i t = \<lparr>row_id = i, original_content = ''text'', analyst_prompt = None,
     analyst_result = None, architect_prompt = None, architect_result = None,
     writer_prompt = None, writer_result = None, evaluation = None, created_at = t\<rparr>"

definition demo_filled :: world where
  "demo_filled = demo_pooled\<lparr>committed :=
       \<lparr>tbl = Some [demo_row 1 (Some 5), demo_row 2 None, demo_row 3 (Some 9)], idx = True\<rparr>,
     serial := 3\<rparr>"

text \<open>The row that \<open>insert\<close> adds to the table of \<open>demo_filled\<close>, and the world after it.\<close>

definition demo_new_row :: row where
  "demo_new_row = \<lparr>row_id = 4, original_content = ''text'',
     analyst_prompt = Some ''p1'', analyst_result = Some ''r1'',
     architect_prompt = Some ''p2'', architect_result = Some ''r2'',
     writer_prompt = Some ''p3'', writer_result = Some ''r3'',
     evaluation = None, created_at = Some 1000\<rparr>"

definition demo_inserted :: world where
  "demo_inserted = demo_filled\<lparr>committed :=
       \<lparr>tbl = Some [demo_row 1 (Some 5), demo_row 2 None, demo_row 3 (Some 9), demo_new_row],
        idx = True\<rparr>,
     serial := 4,
     db_trace := [Acquire, Cursor, Execute InsertRow, Commit, Release]\<rparr>"





section \<open>Properties\<close>

subsection \<open>Composition of frame properties\<close>

lemma preorder_outside_db: "preorder_on_worlds outside_db"
  by (simp add: preorder_on_worlds_def outside_db_def)

lemma preorder_pool_frame: "preorder_on_worlds pool_frame"
  by (simp add: preorder_on_worlds_def pool_frame_def outside_db_def)

lemma maintains_return: "preorder_on_worlds R \<Longrightarrow> maintains R (io_return x)"
  and maintains_raise: "preorder_on_worlds R \<Longrightarrow> maintains R (io_raise e)"
  and maintains_exit: "preorder_on_worlds R \<Longrightarrow> maintains R (sys_exit n)"
  by (simp_all add: maintains_def preorder_on_worlds_def io_return_def io_raise_def sys_exit_def)

lemma maintains_bind:
  assumes "preorder_on_worlds R" "maintains R m" "\<And>x. maintains R (f x)"
  shows "maintains R (io_bind m f)"
  unfolding maintains_def
proof (intro allI impI)
  fix w r w' assume run: "io_bind m f w = (r, w')"
  obtain r1 w1 where m: "m w = (r1, w1)" by (cases "m w")
  with assms(2) have 1: "R w w1" by (simp add: maintains_def)
  show "R w w'"
  proof (cases r1)
    case (Ok x)
    with run m have "f x w1 = (r, w')" by (simp add: io_bind_def)
    with assms(3) have "R w1 w'" by (simp add: maintains_def)
    with 1 assms(1) show ?thesis unfolding preorder_on_worlds_def by blast
  qed (use run m 1 in \<open>auto simp: io_bind_def\<close>)
qed

lemma maintains_except:
  assumes "preorder_on_worlds R" "maintains R m" "\<And>e. maintains R (h e)"
  shows "maintains R (io_except m h)"
  unfolding maintains_def
proof (intro allI impI)
  fix w r w' assume run: "io_except m h w = (r, w')"
  obtain r1 w1 where m: "m w = (r1, w1)" by (cases "m w")
  with assms(2) have 1: "R w w1" by (simp add: maintains_def)
  show "R w w'"
  proof (cases r1)
    case (Raise e)
    with run m have "h e w1 = (r, w')" by (simp add: io_except_def)
    with assms(3) have "R w1 w'" by (simp add: maintains_def)
    with 1 assms(1) show ?thesis unfolding preorder_on_worlds_def by blast
  qed (use run m 1 in \<open>auto simp: io_except_def\<close>)
qed

lemma maintains_finally:
  assumes "preorder_on_worlds R" "maintains R m" "maintains R f"
  shows "maintains R (io_finally m f)"
  unfolding maintains_def
proof (intro allI impI)
  fix w r w' assume run: "io_finally m f w = (r, w')"
  obtain r1 w1 where m: "m w = (r1, w1)" by (cases "m w")
  obtain r2 w2 where f: "f w1 = (r2, w2)" by (cases "f w1")
  from m assms(2) have 1: "R w w1" by (simp add: maintains_def)
  from f assms(3) have 2: "R w1 w2" by (simp add: maintains_def)
  from run m f have "w' = w2" by (cases r2) (auto simp: io_finally_def)
  with 1 2 assms(1) show "R w w'" unfolding preorder_on_worlds_def by blast
qed

lemma maintains_option_sel:
  "maintains R m \<Longrightarrow> (\<And>p. maintains R (g p)) \<Longrightarrow>
   maintains R (\<lambda>w. case sel w of None \<Rightarrow> m w | Some p \<Rightarrow> g p w)"
  by (auto simp: maintains_def split: option.splits)




lemma never_exits_finally:
  "never_exits m \<Longrightarrow> never_exits f \<Longrightarrow> never_exits (io_finally m f)"
  unfolding never_exits_def io_finally_def
  by (auto split: prod.splits res.splits) blast+


lemma io_bind_Ok:
  "io_bind m f w = (Ok y, w') \<longleftrightarrow> (\<exists>x w1. m w = (Ok x, w1) \<and> f x w1 = (Ok y, w'))"
  by (auto simp: io_bind_def split: prod.splits res.splits)

lemma io_except_Ok:
  "io_except m h w = (Ok y, w') \<longleftrightarrow>
     m w = (Ok y, w') \<or> (\<exists>e w1. m w = (Raise e, w1) \<and> h e w1 = (Ok y, w'))"
  by (auto simp: io_except_def split: prod.splits res.splits)

lemma io_finally_Ok:
  "io_finally m f w = (Ok y, w') \<longleftrightarrow> (\<exists>w1. m w = (Ok y, w1) \<and> f w1 = (Ok (), w'))"
  by (auto simp: io_finally_def split: prod.splits res.splits)

subsection \<open>The primitives and the pool\<close>

lemma fault_gate_cases:
  "fault_gate e w = (r, w') \<Longrightarrow> w' = w\<lparr>faults := tl (faults w)\<rparr> \<and> (r = Ok () \<or> r = Raise e)"
  by (auto simp: fault_gate_def split: list.splits if_splits)


lemma outside_db_prims:
  "maintains outside_db (fault_gate e)" "maintains outside_db (log_event ev)"
  "maintains outside_db (console_print msg)" "maintains outside_db get_config"
  "maintains outside_db (getitem d k)" "maintains outside_db (write_store s)"
  "maintains outside_db utcnow" "maintains outside_db (subscript v)"
  by (auto simp: maintains_def outside_db_def fault_gate_def log_event_def console_print_def
      get_config_def getitem_def write_store_def utcnow_def subscript_def io_raise_def io_return_def
      split: list.splits if_splits sum.splits option.splits)

lemma pool_frame_prims:
  "maintains pool_frame (fault_gate e)" "maintains pool_frame (console_print msg)"
  "maintains pool_frame get_config" "maintains pool_frame (getitem d k)"
  by (auto simp: maintains_def pool_frame_def outside_db_def fault_gate_def console_print_def
      get_config_def getitem_def io_raise_def io_return_def
      split: list.splits if_splits sum.splits option.splits)

lemma pool_frame_ThreadedConnectionPool: "maintains pool_frame (ThreadedConnectionPool kw)"
  unfolding ThreadedConnectionPool_def
  by (intro maintains_bind preorder_pool_frame pool_frame_prims)
     (simp add: maintains_def pool_frame_def outside_db_def)


lemma pool_frame_config_or_default: "maintains pool_frame (config_or_default c)"
  by (auto simp: config_or_default_def pool_frame_prims maintains_return preorder_pool_frame
      split: option.splits)


lemma pool_frame_initialize: "maintains pool_frame (initialize c)"
  unfolding initialize_def
  apply (rule maintains_option_sel)
   apply (intro maintains_bind maintains_except preorder_pool_frame pool_frame_prims
      pool_frame_config_or_default pool_frame_ThreadedConnectionPool maintains_raise)
    apply (simp_all add: maintains_def pool_frame_def outside_db_def)
  done


lemma pool_frame_get_pool: "maintains pool_frame get_pool"
  unfolding get_pool_def
  apply (rule maintains_option_sel)
   apply (intro maintains_bind preorder_pool_frame pool_frame_initialize)
   apply (simp_all add: maintains_def pool_frame_def outside_db_def)
  done


lemma ThreadedConnectionPool_Ok:
  "ThreadedConnectionPool kw w = (Ok q, w1) \<Longrightarrow>
     pool_ref q = pools_made w \<and> pool_kwargs q = kw \<and> pools_made w1 = Suc (pools_made w) \<and>
     pool_instance w1 = pool_instance w \<and> pool_config w1 = pool_config w"
  by (auto simp: ThreadedConnectionPool_def io_bind_Ok dest!: fault_gate_cases)

lemma getitem_Ok: "getitem d k w = (Ok v, w1) \<longleftrightarrow> map_of d k = Some v \<and> w1 = w"
  by (auto simp: getitem_def io_raise_def io_return_def split: option.splits)

lemma config_or_default_Ok:
  "config_or_default c w = (Ok d, w1) \<Longrightarrow> w1 = w"
  by (auto simp: config_or_default_def get_config_def io_return_def
      split: option.splits if_splits sum.splits)

lemma initialize_Ok:
  assumes "pool_instance w = None" "initialize c w = (Ok u, w1)"
  shows "\<exists>q. pool_instance w1 = Some q \<and> pool_ref q = pools_made w \<and>
             pools_made w1 = Suc (pools_made w)"
  using assms
  apply (simp add: initialize_def io_bind_Ok io_except_Ok getitem_Ok io_raise_def)
  apply (elim exE conjE)
  apply (drule config_or_default_Ok)
  apply (drule ThreadedConnectionPool_Ok)
  apply auto
  done

lemma get_pool_Ok:
  assumes "get_pool w = (Ok po, w1)"
  shows "\<exists>q. po = Some q \<and> pool_instance w1 = Some q \<and>
             (case pool_instance w of
                Some p \<Rightarrow> q = p \<and> w1 = w
              | None \<Rightarrow> pool_ref q = pools_made w \<and> pools_made w1 = Suc (pools_made w))"
proof (cases "pool_instance w")
  case None
  with assms obtain u where i: "initialize None w = (Ok u, w1)" and po: "po = pool_instance w1"
    by (auto simp: get_pool_def io_bind_Ok)
  from initialize_Ok[OF None i] po show ?thesis using None by auto
next
  case (Some p)
  from assms Some have "po = Some p" "w1 = w" by (auto simp: get_pool_def)
  with Some show ?thesis by simp
qed


subsection \<open>The connection pool\<close>













subsection \<open>A transaction that succeeds\<close>

lemma getconn_Ok:
  "getconn p w = (Ok u, w1) \<Longrightarrow>
     w1 = w\<lparr>faults := tl (faults w), db_trace := db_trace w @ [Acquire],
            checked_out := Suc (checked_out w), txn := None\<rparr>"
  by (auto simp: getconn_def io_bind_Ok log_event_def dest!: fault_gate_cases)

lemma cursor_Ok:
  "cursor w = (Ok u, w1) \<Longrightarrow> w1 = w\<lparr>db_trace := db_trace w @ [Cursor], faults := tl (faults w)\<rparr>"
  by (auto simp: cursor_def io_bind_Ok log_event_def dest!: fault_gate_cases)

lemma execute_Ok:
  "execute s w = (Ok u, w1) \<Longrightarrow>
     w1 = w\<lparr>db_trace := db_trace w @ [Execute s], faults := tl (faults w)\<rparr>"
  by (auto simp: execute_def io_bind_Ok log_event_def dest!: fault_gate_cases)

lemma commit_Ok:
  "commit w = (Ok u, w1) \<Longrightarrow>
     w1 = w\<lparr>db_trace := db_trace w @ [Commit], faults := tl (faults w),
            committed := cur_store w, txn := None\<rparr>"
  by (auto simp: commit_def io_bind_Ok log_event_def cur_store_def dest!: fault_gate_cases
      split: option.splits)

lemma putconn_Ok:
  "putconn p w = (r, w1) \<Longrightarrow>
     r = Ok () \<and> w1 = w\<lparr>db_trace := db_trace w @ [Release],
                         checked_out := checked_out w - 1, txn := None\<rparr>"
  by (auto simp: putconn_def io_bind_def log_event_def)

lemma rollback_never_Ok_then_raise:
  "io_bind rollback (\<lambda>_. io_raise e) w \<noteq> (Ok x, w')"
  by (simp add: io_bind_Ok io_raise_def)

lemma get_db_cursor_Ok:
  assumes "get_db_cursor body w = (Ok x, w')"
  shows "\<exists>p w0 w1 w2 w3 w4. get_pool w = (Ok (Some p), w0) \<and> getconn p w0 = (Ok (), w1) \<and>
           cursor w1 = (Ok (), w2) \<and> body w2 = (Ok x, w3) \<and> commit w3 = (Ok (), w4) \<and>
           putconn p w4 = (Ok (), w')"
proof -
  from assms obtain po w0 where g: "get_pool w = (Ok po, w0)"
    and rest: "(case po of None \<Rightarrow> io_raise AttributeError
         | Some p \<Rightarrow> io_bind (getconn p) (\<lambda>conn.
             io_finally
               (io_except
                  (io_bind cursor (\<lambda>cur. io_bind body (\<lambda>result.
                     io_bind commit (\<lambda>_. io_return result))))
                  (\<lambda>e. io_bind rollback (\<lambda>_. io_raise e)))
               (putconn p))) w0 = (Ok x, w')"
    unfolding get_db_cursor_def io_bind_Ok by blast
  from get_pool_Ok[OF g] obtain p where p: "po = Some p" by blast
  from rest obtain w1 w4 where c: "getconn p w0 = (Ok (), w1)"
    and inner: "io_except
                  (io_bind cursor (\<lambda>cur. io_bind body (\<lambda>result.
                     io_bind commit (\<lambda>_. io_return result))))
                  (\<lambda>e. io_bind rollback (\<lambda>_. io_raise e)) w1 = (Ok x, w4)"
    and put: "putconn p w4 = (Ok (), w')"
    unfolding p option.case io_bind_Ok io_finally_Ok by auto
  from inner have "io_bind cursor (\<lambda>cur. io_bind body (\<lambda>result.
                     io_bind commit (\<lambda>_. io_return result))) w1 = (Ok x, w4)"
    by (simp add: io_except_Ok rollback_never_Ok_then_raise)
  then obtain w2 w3 where "cursor w1 = (Ok (), w2)" "body w2 = (Ok x, w3)"
    "commit w3 = (Ok (), w4)"
    unfolding io_bind_Ok io_return_def by auto
  with g p c put show ?thesis by blast
qed

text \<open>What a successful operation saw and left: the body ran on the committed store, with
  no transaction open before it, and what it left was committed.\<close>

lemma get_db_cursor_Ok_store:
  assumes "get_db_cursor body w = (Ok x, w')"
  shows "\<exists>w2 w3. body w2 = (Ok x, w3) \<and> txn w2 = None \<and> committed w2 = committed w \<and>
           serial w2 = serial w \<and> client_now w2 = client_now w \<and>
           server_now w2 = server_now w \<and> committed w' = cur_store w3"
proof -
  from get_db_cursor_Ok[OF assms] obtain p w0 w1 w2 w3 w4 where
    g: "get_pool w = (Ok (Some p), w0)" and c: "getconn p w0 = (Ok (), w1)" and
    k: "cursor w1 = (Ok (), w2)" and b: "body w2 = (Ok x, w3)" and
    m: "commit w3 = (Ok (), w4)" and u: "putconn p w4 = (Ok (), w')"
    by blast
  from pool_frame_get_pool g have f: "pool_frame w w0" by (simp add: maintains_def)
  have "txn w2 = None" "committed w2 = committed w" "serial w2 = serial w"
    "client_now w2 = client_now w" "server_now w2 = server_now w"
    using f getconn_Ok[OF c] cursor_Ok[OF k] by (simp_all add: pool_frame_def outside_db_def)
  moreover have "committed w' = cur_store w3"
    using commit_Ok[OF m] putconn_Ok[OF u] by simp
  ultimately show ?thesis using b by blast
qed

subsection \<open>find_all\<close>

lemma precedes_total: "\<not> precedes a b \<Longrightarrow> precedes b a"
  by (auto simp: precedes_def split: option.splits)

lemma precedes_trans: "precedes a b \<Longrightarrow> precedes b c \<Longrightarrow> precedes a c"
  by (auto simp: precedes_def split: option.splits)

lemma set_place: "set (place r xs) = insert r (set xs)"
  by (induction xs) auto

lemma sorted_place: "sorted_wrt precedes xs \<Longrightarrow> sorted_wrt precedes (place r xs)"
proof (induction xs)
  case Nil
  show ?case by simp
next
  case (Cons x xs)
  show ?case
  proof (cases "precedes r x")
    case True
    with Cons.prems show ?thesis by (auto intro: precedes_trans)
  next
    case False
    hence "precedes x r" by (rule precedes_total)
    with False Cons show ?thesis by (auto simp: set_place)
  qed
qed

lemma sorted_order_by_created_at_desc: "sorted_wrt precedes (order_by_created_at_desc rs)"
  unfolding order_by_created_at_desc_def by (induction rs) (simp_all add: sorted_place)

lemma sql_select_page_Ok:
  assumes "sql_select_page limit offset w = (Ok rs, w')"
  shows "0 \<le> limit \<and> (\<exists>t. rs = take (nat limit) (drop (nat offset) (order_by_created_at_desc t)))"
proof -
  from assms obtain w1 where
    "(case tbl (cur_store w1) of
         None \<Rightarrow> (Raise DatabaseError, w1)
       | Some t \<Rightarrow>
           if limit < 0 \<or> offset < 0 \<or> limit > 9223372036854775807 \<or> offset > 9223372036854775807
           then (Raise DatabaseError, w1)
           else (Ok (take (nat limit) (drop (nat offset) (order_by_created_at_desc t))), w1))
     = (Ok rs, w')"
    unfolding sql_select_page_def io_bind_Ok by blast
  thus ?thesis by (auto split: option.splits if_splits)
qed

lemma find_all_Ok:
  assumes "find_all limit offset w = (Ok rs, w')"
  shows "0 \<le> limit \<and> (\<exists>t. rs = take (nat limit) (drop (nat offset) (order_by_created_at_desc t)))"
proof -
  from get_db_cursor_Ok[OF assms[unfolded find_all_def]] obtain w2 w3 where
    "io_bind (sql_select_page limit offset) (\<lambda>rs. io_return (fetchall rs)) w2 = (Ok rs, w3)"
    by blast
  then obtain w4 where "sql_select_page limit offset w2 = (Ok rs, w4)"
    unfolding io_bind_Ok io_return_def fetchall_def by auto
  thus ?thesis by (rule sql_select_page_Ok)
qed

text \<open>
  C7. Whatever the limit and the offset, a call of \<open>find_all\<close> that returns gives at most
  \<open>limit\<close> records (a negative limit is rejected by the server, so the call raises), and the
  records are in the order of \<^verbatim>\<open>ORDER BY created_at DESC\<close>: of two records with a creation
  time, the one that comes first in the result is not the older one, and a record with a
  \<^verbatim>\<open>NULL\<close> creation time is not after one that has a creation time.
\<close>

theorem find_all_at_most_limit_newest_first:
  assumes "find_all limit offset w = (Ok rs, w')"
  shows "int (length rs) \<le> limit \<and> sorted_wrt precedes rs \<and>
         (\<forall>i j. i < j \<and> j < length rs \<longrightarrow>
            (case created_at (rs ! j) of
               None \<Rightarrow> created_at (rs ! i) = None
             | Some y \<Rightarrow> (case created_at (rs ! i) of None \<Rightarrow> True | Some x \<Rightarrow> y \<le> x)))"
proof -
  from find_all_Ok[OF assms] obtain t where l: "0 \<le> limit"
    and rs: "rs = take (nat limit) (drop (nat offset) (order_by_created_at_desc t))"
    by blast
  from rs l have 1: "int (length rs) \<le> limit" by simp
  have 2: "sorted_wrt precedes rs"
    unfolding rs by (intro sorted_wrt_take sorted_wrt_drop sorted_order_by_created_at_desc)
  have 3: "\<forall>i j. i < j \<and> j < length rs \<longrightarrow>
            (case created_at (rs ! j) of
               None \<Rightarrow> created_at (rs ! i) = None
             | Some y \<Rightarrow> (case created_at (rs ! i) of None \<Rightarrow> True | Some x \<Rightarrow> y \<le> x))"
  proof (intro allI impI)
    fix i j assume "i < j \<and> j < length rs"
    with 2 have "precedes (rs ! i) (rs ! j)" by (simp add: sorted_wrt_iff_nth_less)
    thus "case created_at (rs ! j) of
               None \<Rightarrow> created_at (rs ! i) = None
             | Some y \<Rightarrow> (case created_at (rs ! i) of None \<Rightarrow> True | Some x \<Rightarrow> y \<le> x)"
      by (auto simp: precedes_def split: option.splits)
  qed
  from 1 2 3 show ?thesis by (intro conjI)
qed

lemma demo_find_all:
  "find_all 2 0 demo_filled =
     (Ok [demo_row 2 None, demo_row 3 (Some 9)],
      demo_filled\<lparr>db_trace := [Acquire, Cursor, Execute (SelectPage 2 0), Commit, Release]\<rparr>)"
  by (simp add: find_all_def get_db_cursor_def get_pool_def getconn_def putconn_def cursor_def
      commit_def execute_def sql_select_page_def fetchall_def cur_store_def
      order_by_created_at_desc_def precedes_def demo_row_def
      io_bind_def io_except_def io_finally_def io_return_def fault_gate_def log_event_def
      demo_filled_def demo_pooled_def demo_world_def demo_pool_def)

theorem find_all_at_most_limit_newest_first_witness:
  "find_all 2 0 demo_filled =
     (Ok [demo_row 2 None, demo_row 3 (Some 9)],
      demo_filled\<lparr>db_trace := [Acquire, Cursor, Execute (SelectPage 2 0), Commit, Release]\<rparr>) \<and>
   int (length [demo_row 2 None, demo_row 3 (Some 9)]) \<le> 2 \<and>
   sorted_wrt precedes [demo_row 2 None, demo_row 3 (Some 9)]"
  using find_all_at_most_limit_newest_first [OF demo_find_all] demo_find_all by simp

subsection \<open>insert and find_by_id\<close>

lemma cur_store_eq: "txn a = txn b \<Longrightarrow> committed a = committed b \<Longrightarrow> cur_store a = cur_store b"
  by (cases "txn b") (simp_all add: cur_store_def)

lemma cur_store_updates:
  "cur_store (w\<lparr>serial := n\<rparr>) = cur_store w"
  "cur_store (w\<lparr>txn := Some s\<rparr>) = s"
  by (simp_all add: cur_store_def split: option.splits)

lemma execute_Ok_store:
  assumes "execute s w = (Ok u, w1)"
  shows "cur_store w1 = cur_store w"
  using execute_Ok[OF assms] by (intro cur_store_eq) simp_all

lemma sql_insert_Ok:
  assumes "sql_insert oc ap ar bp br wp wr ev (Value v) w = (Ok ids, w')"
  shows "\<exists>t. tbl (cur_store w) = Some t \<and> ids = [serial w + 1] \<and>
           serial w + 1 \<notin> set (map row_id t) \<and> pool_instance w' = pool_instance w \<and>
           cur_store w' = (cur_store w)\<lparr>tbl := Some (t @
             [\<lparr>row_id = serial w + 1, original_content = oc,
               analyst_prompt = ap, analyst_result = ar,
               architect_prompt = bp, architect_result = br,
               writer_prompt = wp, writer_result = wr,
               evaluation = ev, created_at = v\<rparr>])\<rparr>"
proof -
  from assms obtain w1 where e: "execute InsertRow w = (Ok (), w1)" and
    rest: "(case tbl (cur_store w1) of
         None \<Rightarrow> (Raise DatabaseError, w1)
       | Some rs \<Rightarrow>
           if serial w1 \<ge> 2147483647 then (Raise DatabaseError, w1)
           else
             let new_id = serial w1 + 1;
                 w2 = w1\<lparr>serial := new_id\<rparr>;
                 r = \<lparr>row_id = new_id, original_content = oc,
                      analyst_prompt = ap, analyst_result = ar,
                      architect_prompt = bp, architect_result = br,
                      writer_prompt = wp, writer_result = wr,
                      evaluation = ev,
                      created_at = (case Value v of Default \<Rightarrow> Some (server_now w1) | Value v \<Rightarrow> v)\<rparr>
             in if new_id \<in> set (map row_id rs) then (Raise DatabaseError, w2)
                else io_bind (write_store ((cur_store w2)\<lparr>tbl := Some (rs @ [r])\<rparr>))
                       (\<lambda>_. io_return [new_id]) w2) = (Ok ids, w')"
    unfolding sql_insert_def io_bind_Ok by auto
  from execute_Ok[OF e] have "serial w1 = serial w" "pool_instance w1 = pool_instance w"
    by simp_all
  with execute_Ok_store[OF e] have w1: "cur_store w1 = cur_store w" "serial w1 = serial w"
    "pool_instance w1 = pool_instance w"
    by simp_all
  from rest obtain t where t: "tbl (cur_store w1) = Some t" by (cases "tbl (cur_store w1)") auto
  from rest t have lt: "\<not> serial w1 \<ge> 2147483647" by (auto split: if_splits)
  from rest t lt have fresh: "serial w1 + 1 \<notin> set (map row_id t)"
    by (auto simp: Let_def split: if_splits)
  let ?r = "\<lparr>row_id = serial w1 + 1, original_content = oc,
               analyst_prompt = ap, analyst_result = ar,
               architect_prompt = bp, architect_result = br,
               writer_prompt = wp, writer_result = wr,
               evaluation = ev, created_at = v\<rparr>"
  from rest t lt fresh have
    "io_bind (write_store ((cur_store w1)\<lparr>tbl := Some (t @ [?r])\<rparr>))
       (\<lambda>_. io_return [serial w1 + 1]) (w1\<lparr>serial := serial w1 + 1\<rparr>) = (Ok ids, w')"
    by (simp add: Let_def cur_store_updates)
  hence ids: "ids = [serial w1 + 1]"
    and w': "w' = w1\<lparr>serial := serial w1 + 1,
                        txn := Some ((cur_store w1)\<lparr>tbl := Some (t @ [?r])\<rparr>)\<rparr>"
    by (simp_all add: write_store_def io_bind_def io_return_def)
  have "pool_instance w' = pool_instance w1" by (simp add: w')
  moreover have "cur_store w' = (cur_store w1)\<lparr>tbl := Some (t @ [?r])\<rparr>"
    unfolding w' by (simp add: cur_store_def)
  ultimately have
    "ids = [serial w1 + 1] \<and> pool_instance w' = pool_instance w1 \<and>
     cur_store w' = (cur_store w1)\<lparr>tbl := Some (t @ [?r])\<rparr>"
    using ids by simp
  with t fresh w1 show ?thesis by simp
qed

text \<open>What a successful \<open>insert\<close> did to the committed table.\<close>

lemma insert_record_Ok:
  assumes "insert_record oc ap ar bp br wp wr ev w = (Ok i, w')"
  shows "\<exists>t. tbl (committed w) = Some t \<and> i \<notin> set (map row_id t) \<and>
           tbl (committed w') = Some (t @
             [\<lparr>row_id = i, original_content = oc,
               analyst_prompt = Some ap, analyst_result = Some ar,
               architect_prompt = Some bp, architect_result = Some br,
               writer_prompt = Some wp, writer_result = Some wr,
               evaluation = ev, created_at = Some (client_now w)\<rparr>])"
proof -
  from get_db_cursor_Ok_store[OF assms[unfolded insert_record_def]] obtain w2 w3 where
    b: "io_bind utcnow (\<lambda>now.
         io_bind (sql_insert oc (Some ap) (Some ar) (Some bp) (Some br) (Some wp) (Some wr) ev
                    (Value (Some now))) (\<lambda>rs. subscript (fetchone rs))) w2 = (Ok i, w3)"
    and f: "txn w2 = None" "committed w2 = committed w" "serial w2 = serial w"
      "client_now w2 = client_now w" "committed w' = cur_store w3"
    by blast
  from b obtain ids where
    s: "sql_insert oc (Some ap) (Some ar) (Some bp) (Some br) (Some wp) (Some wr) ev
          (Value (Some (client_now w2))) w2 = (Ok ids, w3)"
    and i: "fetchone ids = Some i"
    by (auto simp: io_bind_Ok utcnow_def subscript_def io_raise_def io_return_def
        split: option.splits)
  from sql_insert_Ok[OF s] obtain t where t: "tbl (cur_store w2) = Some t"
    "ids = [serial w2 + 1]" "serial w2 + 1 \<notin> set (map row_id t)"
    "cur_store w3 = (cur_store w2)\<lparr>tbl := Some (t @
             [\<lparr>row_id = serial w2 + 1, original_content = oc,
               analyst_prompt = Some ap, analyst_result = Some ar,
               architect_prompt = Some bp, architect_result = Some br,
               writer_prompt = Some wp, writer_result = Some wr,
               evaluation = ev, created_at = Some (client_now w2)\<rparr>])\<rparr>"
    by blast
  from i t(2) have i': "i = serial w2 + 1" by (simp add: fetchone_def)
  from f(1) have c: "cur_store w2 = committed w2" by (simp add: cur_store_def)
  show ?thesis
    using t(1,3,4) i' c f(2,4,5) by simp
qed

lemma sql_select_by_id_Ok:
  assumes "sql_select_by_id i w = (Ok rs, w')"
  shows "\<exists>t. tbl (cur_store w) = Some t \<and> rs = filter (\<lambda>r. row_id r = i) t"
proof -
  from assms obtain w1 where e: "execute (SelectById i) w = (Ok (), w1)" and
    rest: "(case tbl (cur_store w1) of
         None \<Rightarrow> (Raise DatabaseError, w1)
       | Some t \<Rightarrow> (Ok (filter (\<lambda>r. row_id r = i) t), w1)) = (Ok rs, w')"
    unfolding sql_select_by_id_def io_bind_Ok by auto
  from execute_Ok_store[OF e] rest show ?thesis by (auto split: option.splits)
qed

lemma find_by_id_Ok:
  assumes "find_by_id i w = (Ok found, w')"
  shows "\<exists>t. tbl (committed w) = Some t \<and> found = fetchone (filter (\<lambda>r. row_id r = i) t)"
proof -
  from get_db_cursor_Ok_store[OF assms[unfolded find_by_id_def]] obtain w2 w3 where
    b: "io_bind (sql_select_by_id i) (\<lambda>rs. io_return (fetchone rs)) w2 = (Ok found, w3)"
    and f: "txn w2 = None" "committed w2 = committed w"
    by blast
  from b obtain rs w4 where s: "sql_select_by_id i w2 = (Ok rs, w4)" and r: "found = fetchone rs"
    by (auto simp: io_bind_Ok io_return_def)
  from sql_select_by_id_Ok[OF s] f r show ?thesis by (auto simp: cur_store_def)
qed

lemma fetchone_filter_last:
  "i \<notin> set (map row_id t) \<Longrightarrow> row_id r = i \<Longrightarrow>
   fetchone (filter (\<lambda>r. row_id r = i) (t @ [r])) = Some r"
proof -
  assume a: "i \<notin> set (map row_id t)" and b: "row_id r = i"
  from a have "filter (\<lambda>r. row_id r = i) t = []" by (induction t) auto
  with b show ?thesis by (simp add: fetchone_def)
qed

text \<open>
  C6. After an \<open>insert\<close> that returned the identifier \<open>i\<close>, a \<open>find_by_id i\<close> that follows
  at once and returns gives a record: its identifier is \<open>i\<close>, its content, its three
  prompts and results and its evaluation are the values that were inserted, and its
  creation time is not \<^verbatim>\<open>NULL\<close>.
\<close>

theorem insert_then_find_by_id:
  assumes "insert_record oc ap ar bp br wp wr ev w = (Ok i, w1)"
    and "find_by_id i w1 = (Ok found, w2)"
  shows "\<exists>r. found = Some r \<and> row_id r = i \<and> original_content r = oc \<and>
           analyst_prompt r = Some ap \<and> analyst_result r = Some ar \<and>
           architect_prompt r = Some bp \<and> architect_result r = Some br \<and>
           writer_prompt r = Some wp \<and> writer_result r = Some wr \<and>
           evaluation r = ev \<and> created_at r \<noteq> None"
proof -
  from insert_record_Ok[OF assms(1)] obtain t where
    fresh: "i \<notin> set (map row_id t)" and
    after: "tbl (committed w1) = Some (t @
             [\<lparr>row_id = i, original_content = oc,
               analyst_prompt = Some ap, analyst_result = Some ar,
               architect_prompt = Some bp, architect_result = Some br,
               writer_prompt = Some wp, writer_result = Some wr,
               evaluation = ev, created_at = Some (client_now w)\<rparr>])"
    by blast
  let ?r = "\<lparr>row_id = i, original_content = oc,
               analyst_prompt = Some ap, analyst_result = Some ar,
               architect_prompt = Some bp, architect_result = Some br,
               writer_prompt = Some wp, writer_result = Some wr,
               evaluation = ev, created_at = Some (client_now w)\<rparr>"
  have rid: "row_id ?r = i" by simp
  from find_by_id_Ok[OF assms(2)] after have
    "found = fetchone (filter (\<lambda>r. row_id r = i) (t @ [?r]))"
    by simp
  also have "\<dots> = Some ?r" by (rule fetchone_filter_last[OF fresh rid])
  finally have "found = Some ?r" .
  thus ?thesis by simp
qed

lemma demo_insert:
  "insert_record ''text'' ''p1'' ''r1'' ''p2'' ''r2'' ''p3'' ''r3'' None demo_filled
     = (Ok 4, demo_inserted)"
  by (simp add: insert_record_def get_db_cursor_def get_pool_def getconn_def putconn_def
      cursor_def commit_def execute_def sql_insert_def utcnow_def subscript_def fetchone_def
      write_store_def cur_store_def demo_row_def demo_new_row_def
      io_bind_def io_except_def io_finally_def io_return_def fault_gate_def log_event_def
      demo_inserted_def demo_filled_def demo_pooled_def demo_world_def demo_pool_def)

lemma demo_find_by_id: "fst (find_by_id 4 demo_inserted) = Ok (Some demo_new_row)"
  by (simp add: find_by_id_def get_db_cursor_def get_pool_def getconn_def putconn_def
      cursor_def commit_def execute_def sql_select_by_id_def fetchone_def
      cur_store_def demo_row_def demo_new_row_def
      io_bind_def io_except_def io_finally_def io_return_def fault_gate_def log_event_def
      demo_inserted_def demo_filled_def demo_pooled_def demo_world_def demo_pool_def)

theorem insert_then_find_by_id_witness:
  "insert_record ''text'' ''p1'' ''r1'' ''p2'' ''r2'' ''p3'' ''r3'' None demo_filled
     = (Ok 4, demo_inserted) \<and>
   fst (find_by_id 4 demo_inserted) = Ok (Some demo_new_row) \<and>
   row_id demo_new_row = 4 \<and> original_content demo_new_row = ''text'' \<and>
   analyst_prompt demo_new_row = Some ''p1'' \<and> writer_result demo_new_row = Some ''r3'' \<and>
   evaluation demo_new_row = None \<and> created_at demo_new_row \<noteq> None"
  using insert_then_find_by_id [OF demo_insert, of "Some demo_new_row"
      "snd (find_by_id 4 demo_inserted)"] demo_insert demo_find_by_id
  by (simp add: prod_eq_iff)



subsection \<open>The connection discipline\<close>































end
